theory Spec2Isabelle
  imports Complex_Main "HOL-Library.Word"
begin

unbundle bit_operations_syntax

section \<open>Data model\<close>

text \<open>
  A Go \<open>float64\<close> is modelled by its IEEE-754 binary64 bit pattern, the value
  \<open>math.Float64bits\<close> returns: bit 63 is the sign, bits 62..52 the biased
  exponent, bits 51..0 the fraction. A Go \<open>byte\<close> is an 8-bit word.
\<close>

type_synonym byte = "8 word"
type_synonym float64 = "64 word"

text \<open>\<open>type Point struct { Lat float64; Lon float64 }\<close>\<close>

record Point =
  Lat :: float64
  Lon :: float64

text \<open>\<open>func NewPoint(lat, lon float64) *Point\<close>\<close>

definition NewPoint :: "float64 \<Rightarrow> float64 \<Rightarrow> Point" where
  "NewPoint lat lon = \<lparr>Lat = lat, Lon = lon\<rparr>"

section \<open>IEEE-754 binary64 arithmetic\<close>

text \<open>
  What a bit pattern denotes: a NaN, an infinity with its sign, or a finite
  number given by its sign (\<open>True\<close> for negative, so that \<open>-0\<close> is kept
  apart from \<open>+0\<close>) and its magnitude, a non-negative rational.
\<close>

datatype fp = FNaN | FInf bool | FFin bool rat

text \<open>\<open>pow2 e\<close> is \<open>2^e\<close> for an integer \<open>e\<close> of either sign.\<close>

definition pow2 :: "int \<Rightarrow> rat" where
  "pow2 e = (if 0 \<le> e then of_int (2 ^ nat e) else 1 / of_int (2 ^ nat (- e)))"

text \<open>
  Decoding. With sign bit \<open>s\<close>, exponent field \<open>e\<close> and fraction field
  \<open>f\<close>: exponent 2047 is an infinity (\<open>f = 0\<close>) or a NaN; exponent 0 is a
  zero or a subnormal \<open>f * 2^-1074\<close>; any other is the normal number
  \<open>(2^52 + f) * 2^(e - 1075)\<close>.
\<close>

definition f64_decode :: "float64 \<Rightarrow> fp" where
  "f64_decode x =
     (let u = uint x;
          s = (0x8000000000000000 \<le> u);
          e = (u div 0x10000000000000) mod 2048;
          f = u mod 0x10000000000000
      in if e = 2047 then (if f = 0 then FInf s else FNaN)
         else if e = 0 then FFin s (if f = 0 then 0 else of_int f * pow2 (- 1074))
         else FFin s (of_int (0x10000000000000 + f) * pow2 (e - 1075)))"

text \<open>
  Rounding to nearest, ties to even, the rounding of Go's \<open>float64\<close>
  arithmetic. \<open>bitlen n\<close> is the number of binary digits of \<open>n\<close>,
  \<open>flog2 r\<close> the integer part of the binary logarithm of a positive
  rational. For a positive magnitude \<open>r\<close> the exponent \<open>e\<close> of the unit in
  the last place is chosen so that \<open>r / 2^e\<close> lies in \<open>[2^52, 2^53)\<close>, or
  \<open>e = -1074\<close> in the subnormal range; \<open>r / 2^e\<close> is rounded to an integer
  \<open>m\<close>, and the pattern of the result is \<open>(e + 1074) * 2^52 + m\<close> (when
  \<open>m\<close> is carried to \<open>2^53\<close> this is the pattern of the next power of
  two). From the pattern of infinity on, the result is infinity.
\<close>

function bitlen :: "int \<Rightarrow> int" where
  "bitlen n = (if n \<le> 0 then 0 else 1 + bitlen (n div 2))"
  by pat_completeness auto
termination
  by (relation "measure nat") auto

declare bitlen.simps [simp del]

definition flog2 :: "rat \<Rightarrow> int" where
  "flog2 r =
     (if 1 \<le> r then bitlen \<lfloor>r\<rfloor> - 1
      else - bitlen (\<lceil>1 / r\<rceil> - 1))"

definition round_half_even :: "rat \<Rightarrow> int" where
  "round_half_even x =
     (let k = \<lfloor>x\<rfloor>; d = x - of_int k
      in if d < 1 / 2 then k
         else if 1 / 2 < d then k + 1
         else if even k then k else k + 1)"

definition f64_round_mag :: "rat \<Rightarrow> int" where
  "f64_round_mag r =
     (let e = max (flog2 r - 52) (- 1074);
          m = round_half_even (r * pow2 (- e))
      in min ((e + 1074) * 0x10000000000000 + m) 0x7FF0000000000000)"

text \<open>
  Encoding a result. Every operation of the model that produces a NaN returns
  the pattern of Go's \<open>math.NaN()\<close>; which NaN payload the hardware produces
  is not modelled, and no statement below depends on it.
\<close>

definition f64_NaN :: float64 where
  "f64_NaN = 0x7FF8000000000001"

fun f64_encode :: "fp \<Rightarrow> float64" where
  "f64_encode FNaN = f64_NaN"
| "f64_encode (FInf s) = (if s then 0xFFF0000000000000 else 0x7FF0000000000000)"
| "f64_encode (FFin s m) =
     word_of_int ((if s then 0x8000000000000000 else 0) + (if m = 0 then 0 else f64_round_mag m))"

text \<open>
  The exact results of the arithmetic operators, before rounding. A zero sum
  is negative only when both operands are; a product or quotient has the
  exclusive or of the signs. Division by zero does not panic on floats: it
  gives an infinity, or a NaN for \<open>0/0\<close>.
\<close>

definition signed :: "bool \<Rightarrow> rat \<Rightarrow> rat" where
  "signed s m = (if s then - m else m)"

fun fp_add :: "fp \<Rightarrow> fp \<Rightarrow> fp" where
  "fp_add FNaN y = FNaN"
| "fp_add x FNaN = FNaN"
| "fp_add (FInf s) (FInf t) = (if s = t then FInf s else FNaN)"
| "fp_add (FInf s) (FFin t b) = FInf s"
| "fp_add (FFin s a) (FInf t) = FInf t"
| "fp_add (FFin s a) (FFin t b) =
     (let v = signed s a + signed t b
      in if v = 0 then FFin (s \<and> t) 0 else FFin (v < 0) \<bar>v\<bar>)"

fun fp_mul :: "fp \<Rightarrow> fp \<Rightarrow> fp" where
  "fp_mul FNaN y = FNaN"
| "fp_mul x FNaN = FNaN"
| "fp_mul (FInf s) (FInf t) = FInf (s \<noteq> t)"
| "fp_mul (FInf s) (FFin t b) = (if b = 0 then FNaN else FInf (s \<noteq> t))"
| "fp_mul (FFin s a) (FInf t) = (if a = 0 then FNaN else FInf (s \<noteq> t))"
| "fp_mul (FFin s a) (FFin t b) = FFin (s \<noteq> t) (a * b)"

fun fp_div :: "fp \<Rightarrow> fp \<Rightarrow> fp" where
  "fp_div FNaN y = FNaN"
| "fp_div x FNaN = FNaN"
| "fp_div (FInf s) (FInf t) = FNaN"
| "fp_div (FInf s) (FFin t b) = FInf (s \<noteq> t)"
| "fp_div (FFin s a) (FInf t) = FFin (s \<noteq> t) 0"
| "fp_div (FFin s a) (FFin t b) =
     (if b = 0 then (if a = 0 then FNaN else FInf (s \<noteq> t))
      else FFin (s \<noteq> t) (a / b))"

text \<open>
  Comparisons are false as soon as an operand is a NaN. Otherwise the operands
  compare as numbers, an infinity counting as \<open>2^1024\<close>, above every finite
  value; \<open>+0\<close> and \<open>-0\<close> are equal.
\<close>

fun fp_key :: "fp \<Rightarrow> rat" where
  "fp_key FNaN = 0"
| "fp_key (FInf s) = signed s (pow2 1024)"
| "fp_key (FFin s m) = signed s m"

definition fp_lt :: "fp \<Rightarrow> fp \<Rightarrow> bool" where
  "fp_lt x y = (x \<noteq> FNaN \<and> y \<noteq> FNaN \<and> fp_key x < fp_key y)"

definition fp_le :: "fp \<Rightarrow> fp \<Rightarrow> bool" where
  "fp_le x y = (x \<noteq> FNaN \<and> y \<noteq> FNaN \<and> fp_key x \<le> fp_key y)"

definition fp_eq :: "fp \<Rightarrow> fp \<Rightarrow> bool" where
  "fp_eq x y = (x \<noteq> FNaN \<and> y \<noteq> FNaN \<and> fp_key x = fp_key y)"

text \<open>
  The operators of Go on \<open>float64\<close> values: \<open>math.IsNaN\<close>, unary minus,
  \<open>+ - * /\<close> (the exact result rounded once) and
  \<open>< <= > >= ==\<close>.
\<close>

definition IsNaN :: "float64 \<Rightarrow> bool" where
  "IsNaN x = (f64_decode x = FNaN)"

definition f64_neg :: "float64 \<Rightarrow> float64" where
  "f64_neg x = x XOR 0x8000000000000000"

definition f64_add :: "float64 \<Rightarrow> float64 \<Rightarrow> float64" where
  "f64_add a b = f64_encode (fp_add (f64_decode a) (f64_decode b))"

definition f64_sub :: "float64 \<Rightarrow> float64 \<Rightarrow> float64" where
  "f64_sub a b = f64_add a (f64_neg b)"

definition f64_mul :: "float64 \<Rightarrow> float64 \<Rightarrow> float64" where
  "f64_mul a b = f64_encode (fp_mul (f64_decode a) (f64_decode b))"

definition f64_div :: "float64 \<Rightarrow> float64 \<Rightarrow> float64" where
  "f64_div a b = f64_encode (fp_div (f64_decode a) (f64_decode b))"

definition f64_lt :: "float64 \<Rightarrow> float64 \<Rightarrow> bool" where
  "f64_lt a b = fp_lt (f64_decode a) (f64_decode b)"

definition f64_le :: "float64 \<Rightarrow> float64 \<Rightarrow> bool" where
  "f64_le a b = fp_le (f64_decode a) (f64_decode b)"

definition f64_gt :: "float64 \<Rightarrow> float64 \<Rightarrow> bool" where
  "f64_gt a b = f64_lt b a"

definition f64_ge :: "float64 \<Rightarrow> float64 \<Rightarrow> bool" where
  "f64_ge a b = f64_le b a"

definition f64_eq :: "float64 \<Rightarrow> float64 \<Rightarrow> bool" where
  "f64_eq a b = fp_eq (f64_decode a) (f64_decode b)"

section \<open>Binary codec\<close>

text \<open>
  The two errors \<open>io.ReadFull\<close> can return on an in-memory reader, and the
  errors the codec wraps them in with \<open>fmt.Errorf\<close>.
\<close>

datatype io_error = EOF | ErrUnexpectedEOF

datatype error =
    EncodeLatFailed float64 io_error
  | EncodeLonFailed float64 io_error
  | BinaryReadFailed io_error

text \<open>
  \<open>binary.LittleEndian.PutUint64\<close>: byte \<open>i\<close> of the output is
  \<open>byte(v >> (8*i))\<close>.
\<close>

definition PutUint64 :: "64 word \<Rightarrow> byte list" where
  "PutUint64 v = map (\<lambda>i. ucast (drop_bit (8 * i) v)) [0..<8]"

text \<open>
  \<open>binary.LittleEndian.Uint64\<close> on a slice of 8 bytes:
  \<open>uint64(b[0]) | uint64(b[1])<<8 | ... | uint64(b[7])<<56\<close>.
\<close>

definition Uint64 :: "byte list \<Rightarrow> 64 word" where
  "Uint64 b =
     ucast (b ! 0) OR push_bit 8 (ucast (b ! 1)) OR push_bit 16 (ucast (b ! 2)) OR
     push_bit 24 (ucast (b ! 3)) OR push_bit 32 (ucast (b ! 4)) OR
     push_bit 40 (ucast (b ! 5)) OR push_bit 48 (ucast (b ! 6)) OR
     push_bit 56 (ucast (b ! 7))"

text \<open>
  \<open>binary.Write(&buf, binary.LittleEndian, v)\<close> for a \<open>float64\<close> and a
  \<open>bytes.Buffer\<close>: the 8 bytes of \<open>math.Float64bits(v)\<close> are appended to
  the buffer. \<open>Buffer.Write\<close> always returns a nil error, so the error
  component is always \<open>None\<close>.
\<close>

definition binary_Write :: "byte list \<Rightarrow> float64 \<Rightarrow> byte list \<times> io_error option" where
  "binary_Write buf v = (buf @ PutUint64 v, None)"

text \<open>
  \<open>io.ReadFull(r, bs)\<close> with \<open>len(bs) = n\<close> on a \<open>bytes.Reader\<close> whose
  unread bytes are \<open>r\<close>: \<open>io.EOF\<close> when nothing can be read,
  \<open>io.ErrUnexpectedEOF\<close> when fewer than \<open>n\<close> bytes are left, otherwise
  the \<open>n\<close> bytes and the reader advanced past them.
\<close>

definition ReadFull :: "nat \<Rightarrow> byte list \<Rightarrow> io_error + (byte list \<times> byte list)" where
  "ReadFull n r =
     (if n \<le> length r then Inr (take n r, drop n r)
      else if r = [] then Inl EOF
      else Inl ErrUnexpectedEOF)"

text \<open>
  \<open>binary.Read(buf, binary.LittleEndian, &x)\<close> for \<open>x float64\<close>: reads 8 bytes
  with \<open>io.ReadFull\<close> and stores \<open>math.Float64frombits\<close> of their
  little-endian value.
\<close>

definition binary_Read :: "byte list \<Rightarrow> io_error + (float64 \<times> byte list)" where
  "binary_Read r =
     (case ReadFull 8 r of
        Inl e \<Rightarrow> Inl e
      | Inr (bs, r') \<Rightarrow> Inr (Uint64 bs, r'))"

text \<open>\<open>func (p *Point) MarshalBinary() ([]byte, error)\<close>\<close>

definition MarshalBinary :: "Point \<Rightarrow> error + byte list" where
  "MarshalBinary p =
     (case binary_Write [] (Lat p) of
        (buf, Some err) \<Rightarrow> Inl (EncodeLatFailed (Lat p) err)
      | (buf, None) \<Rightarrow>
          (case binary_Write buf (Lon p) of
             (buf', Some err) \<Rightarrow> Inl (EncodeLonFailed (Lon p) err)
           | (buf', None) \<Rightarrow> Inr buf'))"

text \<open>
  \<open>func (p *Point) UnmarshalBinary(data []byte) error\<close>. The receiver is
  mutated in place, so the model takes the receiver's value before the call and
  returns its value after the call together with the returned error
  (\<open>None\<close> for \<open>nil\<close>).
\<close>

definition UnmarshalBinary :: "Point \<Rightarrow> byte list \<Rightarrow> Point \<times> error option" where
  "UnmarshalBinary p data =
     (case binary_Read data of
        Inl err \<Rightarrow> (p, Some (BinaryReadFailed err))
      | Inr (lat, buf) \<Rightarrow>
          (case binary_Read buf of
             Inl err \<Rightarrow> (p, Some (BinaryReadFailed err))
           | Inr (lng, buf') \<Rightarrow> (p\<lparr>Lat := lat, Lon := lng\<rparr>, None)))"

section \<open>Polygon\<close>

text \<open>\<open>type Polygon struct { points []Point }\<close> with its constructor and accessor.\<close>

record Polygon =
  points :: "Point list"

definition NewPolygon :: "Point list \<Rightarrow> Polygon" where
  "NewPolygon ps = \<lparr>points = ps\<rparr>"

definition Points :: "Polygon \<Rightarrow> Point list" where
  "Points p = points p"

text \<open>\<open>func (p *Polygon) IsClosed() bool\<close>\<close>

definition IsClosed :: "Polygon \<Rightarrow> bool" where
  "IsClosed p = (if length (points p) < 3 then False else True)"

text \<open>
  \<open>func PNPoly(p, a, b *Point) bool\<close>. Go's \<open>&&\<close> evaluates its right operand
  only when the left one is true. \<open>PNPoly_trace\<close> returns the result together
  with the divisions the call executes, each as (dividend, divisor);
  \<open>PNPoly\<close> is the result alone.
\<close>

definition PNPoly_trace :: "Point \<Rightarrow> Point \<Rightarrow> Point \<Rightarrow> bool \<times> (float64 \<times> float64) list" where
  "PNPoly_trace p a b =
     (if f64_gt (Lon a) (Lon p) \<noteq> f64_gt (Lon b) (Lon p) then
        (let num = f64_mul (f64_sub (Lat b) (Lat a)) (f64_sub (Lon p) (Lon a));
             den = f64_sub (Lon b) (Lon a)
         in (f64_lt (Lat p) (f64_add (f64_div num den) (Lat a)), [(num, den)]))
      else (False, []))"

definition PNPoly :: "Point \<Rightarrow> Point \<Rightarrow> Point \<Rightarrow> bool" where
  "PNPoly p a b = fst (PNPoly_trace p a b)"

text \<open>
  The loop of \<open>Contains\<close>: \<open>for i := 1; i < len(p.points); i++\<close>, toggling
  \<open>contains\<close> when the edge from \<open>points[i-1]\<close> to \<open>points[i]\<close> passes the
  test.
\<close>

function Contains_loop :: "Point \<Rightarrow> Point list \<Rightarrow> nat \<Rightarrow> bool \<Rightarrow> bool" where
  "Contains_loop point ps i contains =
     (if i < length ps then
        Contains_loop point ps (i + 1)
          (if PNPoly point (ps ! (i - 1)) (ps ! i) then \<not> contains else contains)
      else contains)"
  by pat_completeness auto
termination
  by (relation "measure (\<lambda>(point, ps, i, contains). length ps - i)") auto

declare Contains_loop.simps [simp del]

text \<open>\<open>func (p *Polygon) Contains(point *Point) bool\<close>\<close>

definition Contains :: "Polygon \<Rightarrow> Point \<Rightarrow> bool" where
  "Contains p point =
     (if \<not> IsClosed p then False
      else Contains_loop point (points p) 1
             (PNPoly point (points p ! (length (points p) - 1)) (points p ! 0)))"

text \<open>
  The wording of the specification, for comparison with the code: the edges of
  the implicit closed loop are the edge from the last point to the first and
  then each consecutive pair \<open>(points[i-1], points[i])\<close> for
  \<open>i\<close> in \<open>[1, len)\<close>; the edge test is the stated formula; the result is
  the exclusive or of the edge tests.
\<close>

definition spec_loop_edges :: "Point list \<Rightarrow> (Point \<times> Point) list" where
  "spec_loop_edges ps = (last ps, hd ps) # map (\<lambda>i. (ps ! (i - 1), ps ! i)) [1..<length ps]"

definition spec_edge_test :: "Point \<Rightarrow> Point \<times> Point \<Rightarrow> bool" where
  "spec_edge_test q e =
     (case e of (a, b) \<Rightarrow>
        (f64_gt (Lon a) (Lon q) \<noteq> f64_gt (Lon b) (Lon q)) \<and>
        f64_lt (Lat q)
          (f64_add
             (f64_div (f64_mul (f64_sub (Lat b) (Lat a)) (f64_sub (Lon q) (Lon a)))
                (f64_sub (Lon b) (Lon a)))
             (Lat a)))"

fun xor_all :: "bool list \<Rightarrow> bool" where
  "xor_all [] = False"
| "xor_all (b # bs) = (b \<noteq> xor_all bs)"

section \<open>Text codec: encoding\<close>

text \<open>
  \<open>fmt.Sprintf\<close> renders a \<open>float64\<close> under the verb \<open>%v\<close> as
  \<open>strconv.FormatFloat(x, 'g', -1, 64)\<close> does, with \<open>+Inf\<close> keeping its
  sign: the shortest decimal digit string that reads back as the same
  \<open>float64\<close>, in the layout \<open>%e\<close> when the decimal exponent is below
  \<open>-4\<close> or at least \<open>6\<close>, and in the layout \<open>%f\<close> otherwise.

  \<open>pow10\<close>, \<open>declen\<close> and \<open>flog10\<close> are the decimal counterparts of
  \<open>pow2\<close>, \<open>bitlen\<close> and \<open>flog2\<close>. \<open>mag_of_bits u\<close> is the magnitude
  of the pattern \<open>u\<close> without its sign bit.
\<close>

definition pow10 :: "int \<Rightarrow> rat" where
  "pow10 e = (if 0 \<le> e then of_int (10 ^ nat e) else 1 / of_int (10 ^ nat (- e)))"

function declen :: "int \<Rightarrow> int" where
  "declen n = (if n \<le> 0 then 0 else 1 + declen (n div 10))"
  by pat_completeness auto
termination
  by (relation "measure nat") auto

declare declen.simps [simp del]

definition flog10 :: "rat \<Rightarrow> int" where
  "flog10 r =
     (if 1 \<le> r then declen \<lfloor>r\<rfloor> - 1
      else - declen (\<lceil>1 / r\<rceil> - 1))"

definition mag_of_bits :: "int \<Rightarrow> rat" where
  "mag_of_bits u =
     (let e = u div 0x10000000000000; f = u mod 0x10000000000000
      in if e = 0 then of_int f * pow2 (- 1074)
         else of_int (0x10000000000000 + f) * pow2 (e - 1075))"

text \<open>The byte \<open>byte(d) + '0'\<close>, and the decimal digits of a natural number.\<close>

definition digit_char :: "int \<Rightarrow> char" where
  "digit_char d = char_of (48 + d)"

function dec_digits :: "int \<Rightarrow> string" where
  "dec_digits n =
     (if n < 10 then [digit_char n] else dec_digits (n div 10) @ [digit_char (n mod 10)])"
  by pat_completeness auto
termination
  by (relation "measure nat") auto

declare dec_digits.simps [simp del]

definition trim_zeros :: "string \<Rightarrow> string" where
  "trim_zeros ds = rev (dropWhile (\<lambda>c. c = CHR ''0'') (rev ds))"

text \<open>
  The shortest decimal. A decimal reads back as the magnitude \<open>v\<close> when it
  lies between the midpoints \<open>lo\<close> and \<open>hi\<close> to the neighbouring
  magnitudes, the midpoints included when the fraction field of \<open>v\<close> is even
  (ties go to even). For \<open>n = 1, 2, \<dots>\<close> significant digits the two
  \<open>n\<close>-digit decimals around \<open>v\<close> are tried; the first \<open>n\<close> with one
  of them inside wins, with the decimal closer to \<open>v\<close> when both are. 17
  digits always suffice. The result is the integer made of the digits and the
  power of ten it is scaled by.
\<close>

fun shortest_search :: "nat \<Rightarrow> int \<Rightarrow> rat \<Rightarrow> rat \<Rightarrow> rat \<Rightarrow> bool \<Rightarrow> int \<times> int" where
  "shortest_search fuel n v lo hi incl =
     (let k = flog10 v - (n - 1);
          d0 = \<lfloor>v * pow10 (- k)\<rfloor>;
          c0 = of_int d0 * pow10 k;
          c1 = of_int (d0 + 1) * pow10 k;
          ok0 = (if incl then lo \<le> c0 else lo < c0);
          ok1 = (if incl then c1 \<le> hi else c1 < hi);
          nearest = (if v - c0 < c1 - v \<or> (v - c0 = c1 - v \<and> even d0) then d0 else d0 + 1)
      in case fuel of
           0 \<Rightarrow> (nearest, k)
         | Suc fuel' \<Rightarrow>
             if ok0 \<and> ok1 then (nearest, k)
             else if ok0 then (d0, k)
             else if ok1 then (d0 + 1, k)
             else shortest_search fuel' (n + 1) v lo hi incl)"

text \<open>
  The digits \<open>d\<close> and the position \<open>dp\<close> of the decimal point of
  \<open>strconv\<close>'s \<open>decimalSlice\<close>: the magnitude is \<open>0.d\<^sub>1d\<^sub>2\<dots> * 10^dp\<close>,
  without trailing zeros; zero has no digits.
\<close>

definition shortest_decimal :: "float64 \<Rightarrow> string \<times> int" where
  "shortest_decimal x =
     (let u = uint x mod 0x8000000000000000
      in if u = 0 then ([], 0)
         else
           (let v = mag_of_bits u;
                lo = (mag_of_bits (u - 1) + v) / 2;
                hi = (v + mag_of_bits (u + 1)) / 2;
                (d, k) = shortest_search 16 1 v lo hi (even u);
                ds = dec_digits d
            in (trim_zeros ds, int (length ds) + k)))"

text \<open>
  \<open>strconv\<close>'s \<open>fmtE\<close> (\<open>-d.dddde\<plusminus>dd\<close>, at least two exponent digits) and
  \<open>fmtF\<close> (\<open>-ddd.ddd\<close>) with \<open>prec\<close> digits after the point.
\<close>

definition fmtE :: "bool \<Rightarrow> string \<Rightarrow> int \<Rightarrow> int \<Rightarrow> string" where
  "fmtE neg ds dp prec =
     (let exp = (if ds = [] then 0 else dp - 1);
          ex = \<bar>exp\<bar>
      in (if neg then ''-'' else '''') @
         [if ds = [] then CHR ''0'' else hd ds] @
         (if 0 < prec then
            ''.'' @ take (nat prec) (tl ds) @ replicate (nat prec - (length ds - 1)) CHR ''0''
          else '''') @
         ''e'' @ (if exp < 0 then ''-'' else ''+'') @
         (if ex < 10 then [CHR ''0'', digit_char ex]
          else if ex < 100 then [digit_char (ex div 10), digit_char (ex mod 10)]
          else [digit_char (ex div 100), digit_char ((ex div 10) mod 10), digit_char (ex mod 10)]))"

definition fmtF :: "bool \<Rightarrow> string \<Rightarrow> int \<Rightarrow> int \<Rightarrow> string" where
  "fmtF neg ds dp prec =
     (if neg then ''-'' else '''') @
     (if 0 < dp then take (nat dp) ds @ replicate (nat dp - length ds) CHR ''0'' else ''0'') @
     (if 0 < prec then
        ''.'' @
        map (\<lambda>i. let j = dp + int i
                 in if 0 \<le> j \<and> j < int (length ds) then ds ! nat j else CHR ''0'')
          [0..<nat prec]
      else '''')"

text \<open>The verb \<open>%v\<close> on a \<open>float64\<close>.\<close>

definition FormatFloat_g :: "float64 \<Rightarrow> string" where
  "FormatFloat_g x =
     (case f64_decode x of
        FNaN \<Rightarrow> ''NaN''
      | FInf s \<Rightarrow> (if s then ''-Inf'' else ''+Inf'')
      | FFin s m \<Rightarrow>
          (let (ds, dp) = shortest_decimal x;
               nd = int (length ds);
               exp = dp - 1
           in if exp < - 4 \<or> 6 \<le> exp then fmtE s ds dp (nd - 1)
              else fmtF s ds dp (max (nd - dp) 0)))"

text \<open>
  \<open>fmt.Sprintf\<close> for a format made of literal text and \<open>%v\<close> verbs with
  \<open>float64\<close> operands, which is all \<open>MarshalJSON\<close> uses: literal bytes are
  copied, each \<open>%v\<close> consumes the next operand, and a verb without an operand
  prints \<open>%!v(MISSING)\<close>.
\<close>

fun Sprintf :: "string \<Rightarrow> float64 list \<Rightarrow> string" where
  "Sprintf [] args = []"
| "Sprintf [c] args = [c]"
| "Sprintf (c # d # rest) args =
     (if c = CHR ''%'' \<and> d = CHR ''v'' then
        (case args of
           [] \<Rightarrow> ''%!v(MISSING)'' @ Sprintf rest []
         | a # as \<Rightarrow> FormatFloat_g a @ Sprintf rest as)
      else c # Sprintf (d # rest) args)"

text \<open>
  \<open>func (p *Point) MarshalJSON() ([]byte, error)\<close>, with the format string of
  the source. The returned error is always nil.
\<close>

definition MarshalJSON :: "Point \<Rightarrow> error + string" where
  \<open>MarshalJSON p = Inr (Sprintf ''{"lat":%v, "lon":%v}'' [Lat p, Lon p])\<close>

section \<open>The math library\<close>

text \<open>
  Constants. Go evaluates a constant expression such as \<open>math.Pi / 180.0\<close>
  exactly and rounds it once when it becomes a \<open>float64\<close>.
  \<open>math_Pi\<close> is the decimal literal of \<open>math.Pi\<close>, and \<open>f64_of_rat\<close> the
  conversion of an exact constant to \<open>float64\<close>.
\<close>

definition math_Pi :: rat where
  "math_Pi = 314159265358979323846264338327950288419716939937510582097494459 / 10 ^ 62"

definition f64_of_rat :: "rat \<Rightarrow> float64" where
  "f64_of_rat r = f64_encode (FFin (r < 0) \<bar>r\<bar>)"

definition Pi64 :: float64 where
  "Pi64 = f64_of_rat math_Pi"

text \<open>\<open>math.Copysign(x, y)\<close>: the magnitude of \<open>x\<close> with the sign bit of \<open>y\<close>.\<close>

definition Copysign :: "float64 \<Rightarrow> float64 \<Rightarrow> float64" where
  "Copysign x y = (x AND 0x7FFFFFFFFFFFFFFF) OR (y AND 0x8000000000000000)"

text \<open>
  \<open>math.Sqrt\<close> is correctly rounded. For a positive finite \<open>m\<close> the
  magnitude is scaled by an even power of two to an integer \<open>y\<close> of 127 or
  128 bits, \<open>isqrt\<close> gives the integer part \<open>s\<close> of its square root (at
  least 64 bits), and a half is added when the root is not exact, which makes
  the rounding of the scaled value the rounding of the true root.
\<close>

function isqrt :: "int \<Rightarrow> int" where
  "isqrt n =
     (if n < 1 then 0
      else (let s = 2 * isqrt (n div 4) in if (s + 1) * (s + 1) \<le> n then s + 1 else s))"
  by pat_completeness auto
termination
  by (relation "measure nat") auto

declare isqrt.simps [simp del]

definition fp_sqrt :: "rat \<Rightarrow> rat" where
  "fp_sqrt m =
     (let t = 2 * ((flog2 m - 126) div 2);
          y = \<lfloor>m * pow2 (- t)\<rfloor>;
          s = isqrt y
      in (of_int s + (if s * s = y then 0 else 1 / 2)) * pow2 (t div 2))"

definition math_Sqrt :: "float64 \<Rightarrow> float64" where
  "math_Sqrt x =
     (case f64_decode x of
        FNaN \<Rightarrow> f64_NaN
      | FInf s \<Rightarrow> (if s then f64_NaN else x)
      | FFin s m \<Rightarrow>
          (if m = 0 then x
           else if s then f64_NaN
           else f64_encode (FFin False (fp_sqrt m))))"

text \<open>
  \<open>math.Mod(x, y)\<close>: the exact remainder of \<open>|x|\<close> by \<open>|y|\<close> with the
  sign of \<open>x\<close>. NaN when \<open>x\<close> is infinite, \<open>y\<close> is zero or an operand
  is NaN; \<open>x\<close> itself when \<open>y\<close> is infinite.
\<close>

definition math_Mod :: "float64 \<Rightarrow> float64 \<Rightarrow> float64" where
  "math_Mod x y =
     (case f64_decode x of
        FNaN \<Rightarrow> f64_NaN
      | FInf s \<Rightarrow> f64_NaN
      | FFin s a \<Rightarrow>
          (case f64_decode y of
             FNaN \<Rightarrow> f64_NaN
           | FInf t \<Rightarrow> x
           | FFin t b \<Rightarrow>
               (if b = 0 then f64_NaN
                else f64_encode (FFin s (a - b * of_int \<lfloor>a / b\<rfloor>)))))"

text \<open>
  The trigonometric functions. Go fixes their results on the special arguments
  (zeros, infinities, NaN, arguments out of the domain); on every other
  argument the result is an approximation computed by the platform's
  implementation, which Go does not specify to the last bit. The model
  therefore takes the results on ordinary arguments as a parameter, a record
  \<open>libm\<close> of four functions, and fixes the special cases around them.
  \<open>math.Cos(\<plusminus>0)\<close> is not listed among the documented special cases, but
  Go's implementation returns exactly 1 there (as every IEEE library does), and
  the model says so.
\<close>

record libm =
  sin_core :: "float64 \<Rightarrow> float64"
  cos_core :: "float64 \<Rightarrow> float64"
  asin_core :: "float64 \<Rightarrow> float64"
  atan_core :: "float64 \<Rightarrow> float64"

text \<open>\<open>math.Sin\<close>: \<open>Sin(\<plusminus>0) = \<plusminus>0\<close>, \<open>Sin(\<plusminus>Inf) = NaN\<close>, \<open>Sin(NaN) = NaN\<close>.\<close>

definition math_Sin :: "libm \<Rightarrow> float64 \<Rightarrow> float64" where
  "math_Sin M x =
     (case f64_decode x of
        FNaN \<Rightarrow> f64_NaN
      | FInf s \<Rightarrow> f64_NaN
      | FFin s m \<Rightarrow> (if m = 0 then x else sin_core M x))"

text \<open>\<open>math.Cos\<close>: \<open>Cos(\<plusminus>Inf) = NaN\<close>, \<open>Cos(NaN) = NaN\<close>, and \<open>Cos(\<plusminus>0) = 1\<close>.\<close>

definition math_Cos :: "libm \<Rightarrow> float64 \<Rightarrow> float64" where
  "math_Cos M x =
     (case f64_decode x of
        FNaN \<Rightarrow> f64_NaN
      | FInf s \<Rightarrow> f64_NaN
      | FFin s m \<Rightarrow> (if m = 0 then f64_of_rat 1 else cos_core M x))"

text \<open>
  \<open>math.Asin\<close>: \<open>Asin(\<plusminus>0) = \<plusminus>0\<close>, \<open>Asin(x) = NaN\<close> if \<open>x < -1\<close> or
  \<open>x > 1\<close>, and NaN on NaN.
\<close>

definition math_Asin :: "libm \<Rightarrow> float64 \<Rightarrow> float64" where
  "math_Asin M x =
     (case f64_decode x of
        FNaN \<Rightarrow> f64_NaN
      | FInf s \<Rightarrow> f64_NaN
      | FFin s m \<Rightarrow> (if m = 0 then x else if 1 < m then f64_NaN else asin_core M x))"

text \<open>\<open>math.Atan\<close>: \<open>Atan(\<plusminus>0) = \<plusminus>0\<close>, \<open>Atan(\<plusminus>Inf) = \<plusminus>Pi/2\<close>, NaN on NaN.\<close>

definition math_Atan :: "libm \<Rightarrow> float64 \<Rightarrow> float64" where
  "math_Atan M x =
     (case f64_decode x of
        FNaN \<Rightarrow> f64_NaN
      | FInf s \<Rightarrow> Copysign (f64_of_rat (math_Pi / 2)) x
      | FFin s m \<Rightarrow> (if m = 0 then x else atan_core M x))"

text \<open>
  \<open>math.Atan2(y, x)\<close>, as Go's portable implementation computes it: the
  special cases first (NaN; \<open>y = 0\<close>; \<open>x = 0\<close>; infinite \<open>x\<close>; infinite
  \<open>y\<close>), then \<open>Atan(y / x)\<close> moved to the right quadrant.
\<close>

definition f64_is_inf :: "float64 \<Rightarrow> bool" where
  "f64_is_inf x = (case f64_decode x of FInf s \<Rightarrow> True | _ \<Rightarrow> False)"

definition Signbit :: "float64 \<Rightarrow> bool" where
  "Signbit x = (0x8000000000000000 \<le> uint x)"

definition math_Atan2 :: "libm \<Rightarrow> float64 \<Rightarrow> float64 \<Rightarrow> float64" where
  "math_Atan2 M y x =
     (if IsNaN x \<or> IsNaN y then f64_NaN
      else if f64_eq y 0 then
        (if f64_ge x 0 \<and> \<not> Signbit x then Copysign 0 y else Copysign Pi64 y)
      else if f64_eq x 0 then Copysign (f64_of_rat (math_Pi / 2)) y
      else if f64_is_inf x then
        (if \<not> Signbit x then
           (if f64_is_inf y then Copysign (f64_of_rat (math_Pi / 4)) y else Copysign 0 y)
         else
           (if f64_is_inf y then Copysign (f64_of_rat (3 * math_Pi / 4)) y else Copysign Pi64 y))
      else if f64_is_inf y then Copysign (f64_of_rat (math_Pi / 2)) y
      else
        (let q = math_Atan M (f64_div y x)
         in if f64_lt x 0 then
              (if f64_le q 0 then f64_add q Pi64 else f64_sub q Pi64)
            else q))"

section \<open>Operations on points\<close>

text \<open>\<open>EarthRadius = 6371\<close>, converted to \<open>float64\<close> where it is used.\<close>

definition EarthRadius :: rat where
  "EarthRadius = 6371"

text \<open>
  \<open>func (p *Point) PointAtDistanceAndBearing(dist, bearing float64) *Point\<close>.
  \<open>unnormalised_lng2\<close> is the value of \<open>lng1 + math.Atan2(lon2Part1, lon2Part2)\<close>,
  the longitude in radians before the line that normalises it.
\<close>

definition PADB_lat2 :: "libm \<Rightarrow> Point \<Rightarrow> float64 \<Rightarrow> float64 \<Rightarrow> float64" where
  "PADB_lat2 M p distance bearing =
     (let dr = f64_div distance (f64_of_rat EarthRadius);
          bearing = f64_mul bearing (f64_of_rat (math_Pi / 180));
          lat1 = f64_mul (Lat p) (f64_of_rat (math_Pi / 180));
          lat2Part1 = f64_mul (math_Sin M lat1) (math_Cos M dr);
          lat2Part2 = f64_mul (f64_mul (math_Cos M lat1) (math_Sin M dr)) (math_Cos M bearing)
      in math_Asin M (f64_add lat2Part1 lat2Part2))"

definition unnormalised_lng2 :: "libm \<Rightarrow> Point \<Rightarrow> float64 \<Rightarrow> float64 \<Rightarrow> float64" where
  "unnormalised_lng2 M p distance bearing =
     (let dr = f64_div distance (f64_of_rat EarthRadius);
          lat2 = PADB_lat2 M p distance bearing;
          bearing = f64_mul bearing (f64_of_rat (math_Pi / 180));
          lat1 = f64_mul (Lat p) (f64_of_rat (math_Pi / 180));
          lng1 = f64_mul (Lon p) (f64_of_rat (math_Pi / 180));
          lon2Part1 = f64_mul (f64_mul (math_Sin M bearing) (math_Sin M dr)) (math_Cos M lat1);
          lon2Part2 = f64_sub (math_Cos M dr) (f64_mul (math_Sin M lat1) (math_Sin M lat2))
      in f64_add lng1 (math_Atan2 M lon2Part1 lon2Part2))"

definition PointAtDistanceAndBearing :: "libm \<Rightarrow> Point \<Rightarrow> float64 \<Rightarrow> float64 \<Rightarrow> Point" where
  "PointAtDistanceAndBearing M p distance bearing =
     (let lat2 = PADB_lat2 M p distance bearing;
          lng2 = unnormalised_lng2 M p distance bearing;
          lng2 = f64_sub (math_Mod (f64_add lng2 (f64_of_rat (3 * math_Pi)))
                            (f64_of_rat (2 * math_Pi))) Pi64;
          lat2 = f64_mul lat2 (f64_of_rat (180 / math_Pi));
          lng2 = f64_mul lng2 (f64_of_rat (180 / math_Pi))
      in \<lparr>Lat = lat2, Lon = lng2\<rparr>)"

text \<open>\<open>func (p *Point) GreatCircleDistance(p2 *Point) float64\<close>\<close>

definition GreatCircleDistance :: "libm \<Rightarrow> Point \<Rightarrow> Point \<Rightarrow> float64" where
  "GreatCircleDistance M p p2 =
     (let dLat = f64_mul (f64_sub (Lat p2) (Lat p)) (f64_of_rat (math_Pi / 180));
          dLon = f64_mul (f64_sub (Lon p2) (Lon p)) (f64_of_rat (math_Pi / 180));
          lat1 = f64_mul (Lat p) (f64_of_rat (math_Pi / 180));
          lat2 = f64_mul (Lat p2) (f64_of_rat (math_Pi / 180));
          a1 = f64_mul (math_Sin M (f64_div dLat (f64_of_rat 2)))
                       (math_Sin M (f64_div dLat (f64_of_rat 2)));
          a2 = f64_mul
                 (f64_mul
                    (f64_mul (math_Sin M (f64_div dLon (f64_of_rat 2)))
                             (math_Sin M (f64_div dLon (f64_of_rat 2))))
                    (math_Cos M lat1))
                 (math_Cos M lat2);
          a = f64_add a1 a2;
          c = f64_mul (f64_of_rat 2)
                (math_Atan2 M (math_Sqrt a) (math_Sqrt (f64_sub (f64_of_rat 1) a)))
      in f64_mul (f64_of_rat EarthRadius) c)"

text \<open>
  \<open>func (p *Point) BearingTo(p2 *Point) float64\<close>. Here \<open>x * math.Pi / 180.0\<close>
  is a multiplication by \<open>math.Pi\<close> followed by a division by 180.
\<close>

definition BearingTo :: "libm \<Rightarrow> Point \<Rightarrow> Point \<Rightarrow> float64" where
  "BearingTo M p p2 =
     (let dLon = f64_div (f64_mul (f64_sub (Lon p2) (Lon p)) Pi64) (f64_of_rat 180);
          lat1 = f64_div (f64_mul (Lat p) Pi64) (f64_of_rat 180);
          lat2 = f64_div (f64_mul (Lat p2) Pi64) (f64_of_rat 180);
          y = f64_mul (math_Sin M dLon) (math_Cos M lat2);
          x = f64_sub (f64_mul (math_Cos M lat1) (math_Sin M lat2))
                (f64_mul (f64_mul (math_Sin M lat1) (math_Cos M lat2)) (math_Cos M dLon));
          brng = f64_div (f64_mul (math_Atan2 M y x) (f64_of_rat 180)) Pi64
      in brng)"

section \<open>Properties of the binary codec\<close>

lemma length_PutUint64: "length (PutUint64 v) = 8"
  by (simp add: PutUint64_def)

lemma Uint64_PutUint64: "Uint64 (PutUint64 v) = v"
proof (rule bit_word_eqI)
  fix n assume n: "n < LENGTH(64)"
  have l: "[0..<8] = [0, 1, 2, 3, 4, 5, 6, 7::nat]"
    by (simp add: upt_rec)
  from n consider "n < 8" | "8 \<le> n" "n < 16" | "16 \<le> n" "n < 24" | "24 \<le> n" "n < 32"
    | "32 \<le> n" "n < 40" | "40 \<le> n" "n < 48" | "48 \<le> n" "n < 56" | "56 \<le> n" "n < 64"
    by fastforce
  then show "bit (Uint64 (PutUint64 v)) n = bit v n"
    unfolding Uint64_def PutUint64_def l
    by cases (auto simp: bit_simps cong: conj_cong)
qed

lemma byte_bit: "bit (x::byte) n \<Longrightarrow> n < 8"
  using bit_imp_le_length[of x n] by simp

lemma byte_of_Uint64_aux:
  "k \<in> {0, 8, 16, 24, 32, 40, 48, 56} \<Longrightarrow> ucast (drop_bit k (Uint64 b)) = b ! (k div 8)"
  unfolding Uint64_def
  by (elim insertE emptyE; hypsubst; rule bit_word_eqI) (auto simp: bit_simps dest: byte_bit)

lemma byte_of_Uint64:
  assumes "i < 8"
  shows "ucast (drop_bit (8 * i) (Uint64 b)) = b ! i"
proof -
  from assms have "8 * i \<in> {0, 8, 16, 24, 32, 40, 48, 56}" by auto
  from byte_of_Uint64_aux [OF this] show ?thesis by simp
qed

lemma binary_Read_short: "length r < 8 \<Longrightarrow> \<exists>e. binary_Read r = Inl e"
  by (simp add: binary_Read_def ReadFull_def)

lemma binary_Read_long: "8 \<le> length r \<Longrightarrow> binary_Read r = Inr (Uint64 (take 8 r), drop 8 r)"
  by (simp add: binary_Read_def ReadFull_def)

lemma MarshalBinary_bytes: "MarshalBinary p = Inr (PutUint64 (Lat p) @ PutUint64 (Lon p))"
  by (simp add: MarshalBinary_def binary_Write_def)

lemma UnmarshalBinary_short:
  assumes "length data < 16"
  shows "\<exists>e. UnmarshalBinary p data = (p, Some (BinaryReadFailed e))"
proof (cases "length data < 8")
  case True
  then obtain e where "binary_Read data = Inl e" using binary_Read_short by blast
  then show ?thesis by (simp add: UnmarshalBinary_def)
next
  case False
  then have 1: "binary_Read data = Inr (Uint64 (take 8 data), drop 8 data)"
    by (simp add: binary_Read_long)
  from assms False have "length (drop 8 data) < 8" by simp
  then obtain e where "binary_Read (drop 8 data) = Inl e" using binary_Read_short by blast
  with 1 show ?thesis by (simp add: UnmarshalBinary_def)
qed

lemma UnmarshalBinary_long:
  assumes "16 \<le> length data"
  shows "UnmarshalBinary p data =
           (p\<lparr>Lat := Uint64 (take 8 data), Lon := Uint64 (take 8 (drop 8 data))\<rparr>, None)"
proof -
  from assms have "8 \<le> length data" and "8 \<le> length (drop 8 data)" by simp_all
  then show ?thesis by (simp add: UnmarshalBinary_def binary_Read_long)
qed

text \<open>
  C3. For every Point \<open>p\<close>, \<open>MarshalBinary\<close> succeeds, and
  \<open>UnmarshalBinary\<close> applied to the bytes it returns succeeds, whatever the
  receiver \<open>q\<close> held before, and leaves in the receiver a Point whose
  \<open>Lat\<close> and \<open>Lon\<close> have the bit patterns of \<open>p\<close>'s (every
  64-bit pattern, so NaNs and infinities included).
\<close>

theorem C3_binary_roundtrip:
  "\<exists>bs. MarshalBinary p = Inr bs \<and> length bs = 16 \<and> UnmarshalBinary q bs = (p, None)"
proof -
  let ?bs = "PutUint64 (Lat p) @ PutUint64 (Lon p)"
  have "UnmarshalBinary q ?bs = (q\<lparr>Lat := Lat p, Lon := Lon p\<rparr>, None)"
    by (simp add: UnmarshalBinary_long length_PutUint64 Uint64_PutUint64)
  moreover have "q\<lparr>Lat := Lat p, Lon := Lon p\<rparr> = p" by simp
  ultimately show ?thesis
    by (simp add: MarshalBinary_bytes length_PutUint64)
qed

text \<open>
  C4. \<open>UnmarshalBinary(data)\<close> returns an error exactly when \<open>data\<close>
  has fewer than 16 bytes. On 16 bytes or more it returns nil and sets
  \<open>Lat\<close> and \<open>Lon\<close> to the little-endian values of bytes 0..7 and 8..15:
  byte \<open>i\<close> of the bit pattern of \<open>Lat\<close> (bits \<open>8i\<close> to
  \<open>8i+7\<close>) is \<open>data[i]\<close>, byte \<open>i\<close> of \<open>Lon\<close> is
  \<open>data[8+i]\<close>. Bytes from index 16 on are ignored.
\<close>

theorem C4_unmarshal_binary_error_iff:
  "(snd (UnmarshalBinary p data) \<noteq> None) = (length data < 16) \<and>
   (16 \<le> length data \<longrightarrow>
      (\<exists>lat lon. UnmarshalBinary p data = (\<lparr>Lat = lat, Lon = lon\<rparr>, None) \<and>
         (\<forall>i<8. ucast (drop_bit (8 * i) lat) = data ! i) \<and>
         (\<forall>i<8. ucast (drop_bit (8 * i) lon) = data ! (8 + i))) \<and>
      UnmarshalBinary p (take 16 data) = UnmarshalBinary p data)"
proof (cases "length data < 16")
  case True
  then obtain e where "UnmarshalBinary p data = (p, Some (BinaryReadFailed e))"
    using UnmarshalBinary_short by blast
  with True show ?thesis by simp
next
  case False
  then have len: "16 \<le> length data" by simp
  let ?lat = "Uint64 (take 8 data)" and ?lon = "Uint64 (take 8 (drop 8 data))"
  have u: "UnmarshalBinary p data = (\<lparr>Lat = ?lat, Lon = ?lon\<rparr>, None)"
    using len by (simp add: UnmarshalBinary_long)
  have lat: "\<forall>i<8. ucast (drop_bit (8 * i) ?lat) = data ! i"
    by (simp add: byte_of_Uint64)
  have lon: "\<forall>i<8. ucast (drop_bit (8 * i) ?lon) = data ! (8 + i)"
    using len by (simp add: byte_of_Uint64)
  have "UnmarshalBinary p (take 16 data) = (\<lparr>Lat = ?lat, Lon = ?lon\<rparr>, None)"
    using len by (simp add: UnmarshalBinary_long min_def drop_take)
  with u lat lon len show ?thesis by auto
qed

theorem C4_unmarshal_binary_witness:
  "16 \<le> length [0x8F, 0xE4, 0xF2, 0x1F, 0xD2, 0x5F, 0x44, 0x40, 0x90, 0x31, 0x77, 0x2D, 0x21, 0x7F, 0x52, 0xC0, 0xFF :: byte] \<and>
   UnmarshalBinary \<lparr>Lat = 0, Lon = 0\<rparr>
       [0x8F, 0xE4, 0xF2, 0x1F, 0xD2, 0x5F, 0x44, 0x40, 0x90, 0x31, 0x77, 0x2D, 0x21, 0x7F, 0x52, 0xC0, 0xFF] =
     (\<lparr>Lat = 0x40445FD21FF2E48F, Lon = 0xC0527F212D773190\<rparr>, None) \<and>
   UnmarshalBinary \<lparr>Lat = 0, Lon = 0\<rparr>
       (take 16 [0x8F, 0xE4, 0xF2, 0x1F, 0xD2, 0x5F, 0x44, 0x40, 0x90, 0x31, 0x77, 0x2D, 0x21, 0x7F, 0x52, 0xC0, 0xFF]) =
     (\<lparr>Lat = 0x40445FD21FF2E48F, Lon = 0xC0527F212D773190\<rparr>, None)"
proof -
  let ?d = "[0x8F, 0xE4, 0xF2, 0x1F, 0xD2, 0x5F, 0x44, 0x40, 0x90, 0x31, 0x77, 0x2D, 0x21, 0x7F, 0x52, 0xC0, 0xFF :: byte]"
  have len: "16 \<le> length ?d" by simp
  have val: "UnmarshalBinary \<lparr>Lat = 0, Lon = 0\<rparr> ?d =
     (\<lparr>Lat = 0x40445FD21FF2E48F, Lon = 0xC0527F212D773190\<rparr>, None)"
    by (simp add: UnmarshalBinary_long Uint64_def)
  from C4_unmarshal_binary_error_iff [of "\<lparr>Lat = 0, Lon = 0\<rparr>" ?d] len
  have "UnmarshalBinary \<lparr>Lat = 0, Lon = 0\<rparr> (take 16 ?d) = UnmarshalBinary \<lparr>Lat = 0, Lon = 0\<rparr> ?d"
    by blast
  with len val show ?thesis by simp
qed

text \<open>
  C9. If \<open>UnmarshalBinary(data)\<close> returns an error, the receiver's
  \<open>Lat\<close> and \<open>Lon\<close> are what they were before the call: both reads go
  to local variables, and the receiver is assigned only after both succeeded.
\<close>

theorem C9_unmarshal_binary_no_partial_write:
  "snd (UnmarshalBinary p data) \<noteq> None \<Longrightarrow> fst (UnmarshalBinary p data) = p"
  by (auto simp: UnmarshalBinary_def split: sum.splits prod.splits)

theorem C9_unmarshal_binary_witness:
  "snd (UnmarshalBinary \<lparr>Lat = 5, Lon = 7\<rparr> [0x8F, 0xE4, 0xF2, 0x1F, 0xD2, 0x5F, 0x44, 0x40, 0x90]) \<noteq> None \<and>
   fst (UnmarshalBinary \<lparr>Lat = 5, Lon = 7\<rparr> [0x8F, 0xE4, 0xF2, 0x1F, 0xD2, 0x5F, 0x44, 0x40, 0x90]) = \<lparr>Lat = 5, Lon = 7\<rparr>"
proof -
  have e: "snd (UnmarshalBinary \<lparr>Lat = 5, Lon = 7\<rparr> [0x8F, 0xE4, 0xF2, 0x1F, 0xD2, 0x5F, 0x44, 0x40, 0x90]) \<noteq> None"
    by (simp add: UnmarshalBinary_def binary_Read_def ReadFull_def)
  from C9_unmarshal_binary_no_partial_write [OF e] e show ?thesis by blast
qed


section \<open>Properties of the polygon\<close>

lemma PNPoly_eq_spec: "PNPoly q a b = spec_edge_test q (a, b)"
  by (simp add: PNPoly_def PNPoly_trace_def spec_edge_test_def Let_def)

lemma xor_all_odd: "xor_all bs = odd (length (filter (\<lambda>b. b) bs))"
  by (induction bs) auto

lemma Contains_loop_xor:
  "Contains_loop q ps i c =
     (c \<noteq> xor_all (map (\<lambda>j. PNPoly q (ps ! (j - 1)) (ps ! j)) [i..<length ps]))"
proof (induction q ps i c rule: Contains_loop.induct)
  case (1 point ps i contains)
  show ?case
  proof (cases "i < length ps")
    case True
    then have u: "[i..<length ps] = i # [i + 1..<length ps]"
      by (simp add: upt_conv_Cons)
    from True 1 show ?thesis
      by (subst Contains_loop.simps) (auto simp: u)
  next
    case False
    then show ?thesis
      by (subst Contains_loop.simps) simp
  qed
qed

text \<open>
  C1. \<open>Contains\<close> returns false for every polygon with fewer than 3 points;
  for a polygon with at least 3 points it is the exclusive or (the even-odd
  parity) of the edge test over the edge from the last point to the first and
  the consecutive pairs \<open>(points[i-1], points[i])\<close>, \<open>1 \<le> i < len\<close>.
\<close>

theorem C1_contains_even_odd:
  "(length ps < 3 \<longrightarrow> Contains (NewPolygon ps) q = False) \<and>
   (3 \<le> length ps \<longrightarrow>
      Contains (NewPolygon ps) q = xor_all (map (spec_edge_test q) (spec_loop_edges ps)) \<and>
      Contains (NewPolygon ps) q =
        odd (length (filter (spec_edge_test q) (spec_loop_edges ps))))"
proof (intro conjI impI)
  assume "length ps < 3"
  then show "Contains (NewPolygon ps) q = False"
    by (simp add: Contains_def IsClosed_def NewPolygon_def)
next
  assume len: "3 \<le> length ps"
  then have ne: "ps \<noteq> []" by auto
  have edges: "map (spec_edge_test q) (spec_loop_edges ps) =
      PNPoly q (ps ! (length ps - 1)) (ps ! 0) #
      map (\<lambda>j. PNPoly q (ps ! (j - 1)) (ps ! j)) [1..<length ps]"
    using ne by (simp add: spec_loop_edges_def PNPoly_eq_spec last_conv_nth hd_conv_nth)
  show x: "Contains (NewPolygon ps) q = xor_all (map (spec_edge_test q) (spec_loop_edges ps))"
    using len unfolding edges
    by (simp add: Contains_def IsClosed_def NewPolygon_def Contains_loop_xor)
  have "xor_all (map (spec_edge_test q) (spec_loop_edges ps)) =
        odd (length (filter (spec_edge_test q) (spec_loop_edges ps)))"
    unfolding xor_all_odd by (simp add: filter_map comp_def)
  with x show "Contains (NewPolygon ps) q =
        odd (length (filter (spec_edge_test q) (spec_loop_edges ps)))" by simp
qed

text \<open>
  C10. When \<open>a.Lon == b.Lon\<close> holds as a comparison of floats,
  \<open>PNPoly(p, a, b)\<close> is false and the call executes no division: the left
  operand of \<open>&&\<close> is false, so the right operand, with its division by
  \<open>b.Lon - a.Lon\<close>, is not evaluated.
\<close>

theorem C10_equal_lon_no_division:
  "f64_eq (Lon a) (Lon b) \<Longrightarrow> PNPoly p a b = False \<and> snd (PNPoly_trace p a b) = []"
  by (simp add: PNPoly_def PNPoly_trace_def f64_eq_def f64_gt_def f64_lt_def fp_eq_def fp_lt_def)


theorem C1_contains_witness:
  "length [\<lparr>Lat = 0, Lon = 0\<rparr>, \<lparr>Lat = 0, Lon = 0x4024000000000000\<rparr>] < 3 \<and>
   Contains (NewPolygon [\<lparr>Lat = 0, Lon = 0\<rparr>, \<lparr>Lat = 0, Lon = 0x4024000000000000\<rparr>])
     \<lparr>Lat = 0x4014000000000000, Lon = 0x4014000000000000\<rparr> = False \<and>
   3 \<le> length [\<lparr>Lat = 0, Lon = 0\<rparr>, \<lparr>Lat = 0, Lon = 0x4024000000000000\<rparr>,
       \<lparr>Lat = 0x4024000000000000, Lon = 0x4024000000000000\<rparr>,
       \<lparr>Lat = 0x4024000000000000, Lon = 0\<rparr>] \<and>
   Contains (NewPolygon [\<lparr>Lat = 0, Lon = 0\<rparr>, \<lparr>Lat = 0, Lon = 0x4024000000000000\<rparr>,
       \<lparr>Lat = 0x4024000000000000, Lon = 0x4024000000000000\<rparr>,
       \<lparr>Lat = 0x4024000000000000, Lon = 0\<rparr>])
     \<lparr>Lat = 0x4014000000000000, Lon = 0x4014000000000000\<rparr> = True \<and>
   odd (length (filter (spec_edge_test \<lparr>Lat = 0x4014000000000000, Lon = 0x4014000000000000\<rparr>)
     (spec_loop_edges [\<lparr>Lat = 0, Lon = 0\<rparr>, \<lparr>Lat = 0, Lon = 0x4024000000000000\<rparr>,
       \<lparr>Lat = 0x4024000000000000, Lon = 0x4024000000000000\<rparr>,
       \<lparr>Lat = 0x4024000000000000, Lon = 0\<rparr>])))"
proof -
  let ?q = "\<lparr>Lat = 0x4014000000000000, Lon = 0x4014000000000000\<rparr>"
  let ?line = "[\<lparr>Lat = 0, Lon = 0\<rparr>, \<lparr>Lat = 0, Lon = 0x4024000000000000\<rparr>]"
  let ?square = "[\<lparr>Lat = 0, Lon = 0\<rparr>, \<lparr>Lat = 0, Lon = 0x4024000000000000\<rparr>,
       \<lparr>Lat = 0x4024000000000000, Lon = 0x4024000000000000\<rparr>,
       \<lparr>Lat = 0x4024000000000000, Lon = 0\<rparr>]"
  have inside: "Contains (NewPolygon ?square) ?q"
    by code_simp
  from C1_contains_even_odd [of ?line ?q] C1_contains_even_odd [of ?square ?q] inside
  show ?thesis by simp
qed

theorem C10_equal_lon_witness:
  "f64_eq (Lon \<lparr>Lat = 0, Lon = 0x4024000000000000\<rparr>)
          (Lon \<lparr>Lat = 0x4024000000000000, Lon = 0x4024000000000000\<rparr>) \<and>
   PNPoly \<lparr>Lat = 0x4014000000000000, Lon = 0x4014000000000000\<rparr>
     \<lparr>Lat = 0, Lon = 0x4024000000000000\<rparr>
     \<lparr>Lat = 0x4024000000000000, Lon = 0x4024000000000000\<rparr> = False \<and>
   snd (PNPoly_trace \<lparr>Lat = 0x4014000000000000, Lon = 0x4014000000000000\<rparr>
     \<lparr>Lat = 0, Lon = 0x4024000000000000\<rparr>
     \<lparr>Lat = 0x4024000000000000, Lon = 0x4024000000000000\<rparr>) = []"
proof -
  have e: "f64_eq (Lon \<lparr>Lat = 0, Lon = 0x4024000000000000\<rparr>)
          (Lon \<lparr>Lat = 0x4024000000000000, Lon = 0x4024000000000000\<rparr>)"
    by code_simp
  from C10_equal_lon_no_division [OF e] e show ?thesis by blast
qed

section \<open>Properties of the text encoding\<close>

text \<open>
  C2 fails as stated: the format string of \<open>MarshalJSON\<close> has a space after
  the comma, so the bytes returned for \<open>Point(40.7486, -73.9864)\<close> are
  \<open>{"lat":40.7486, "lon":-73.9864}\<close> and not the compact form. (The compact
  form of the test comes from \<open>json.Marshal\<close>, which compacts what
  \<open>MarshalJSON\<close> returns.)
\<close>

theorem C2_marshal_json_counterexample:
  \<open>MarshalJSON \<lparr>Lat = 0x40445FD21FF2E48F, Lon = 0xC0527F212D773190\<rparr> =
     Inr ''{"lat":40.7486, "lon":-73.9864}'' \<and>
   MarshalJSON \<lparr>Lat = 0x40445FD21FF2E48F, Lon = 0xC0527F212D773190\<rparr> \<noteq>
     Inr ''{"lat":40.7486,"lon":-73.9864}''\<close>
proof -
  have \<open>MarshalJSON \<lparr>Lat = 0x40445FD21FF2E48F, Lon = 0xC0527F212D773190\<rparr> =
     Inr ''{"lat":40.7486, "lon":-73.9864}''\<close>
    by code_simp
  then show ?thesis by simp
qed

text \<open>
  C2, amended. For every Point \<open>p\<close>, \<open>MarshalJSON(p)\<close> succeeds and returns
  exactly \<open>{"lat":<Lat>, "lon":<Lon>}\<close>, with one space after the comma and
  nothing else around the fields, where \<open><Lat>\<close> and \<open><Lon>\<close> are the
  \<open>%v\<close> renderings of the two floats; it never returns the form without the
  space; and \<open>MarshalJSON(Point(40.7486, -73.9864))\<close> is
  \<open>{"lat":40.7486, "lon":-73.9864}\<close>.
\<close>

theorem C2_marshal_json_space_after_comma:
  \<open>MarshalJSON p =
     Inr (''{"lat":'' @ FormatFloat_g (Lat p) @ '', "lon":'' @ FormatFloat_g (Lon p) @ ''}'') \<and>
   MarshalJSON p \<noteq>
     Inr (''{"lat":'' @ FormatFloat_g (Lat p) @ '',"lon":'' @ FormatFloat_g (Lon p) @ ''}'') \<and>
   FormatFloat_g 0x40445FD21FF2E48F = ''40.7486'' \<and>
   FormatFloat_g 0xC0527F212D773190 = ''-73.9864''\<close>
proof -
  have 1: \<open>FormatFloat_g 0x40445FD21FF2E48F = ''40.7486''\<close>
    by code_simp
  have 2: \<open>FormatFloat_g 0xC0527F212D773190 = ''-73.9864''\<close>
    by code_simp
  show ?thesis
    by (simp add: MarshalJSON_def 1 2)
qed

end
